theory Spec2Isabelle
  imports Main "HOL-Library.AList"
begin

section \<open>Python values, objects and the store\<close>

text \<open>
  The module \<^verbatim>\<open>lib/many_to_many.py\<close> defines three classes, \<^verbatim>\<open>Author\<close>,
  \<^verbatim>\<open>Book\<close> and \<^verbatim>\<open>Contract\<close>. Each keeps a class-level list \<^verbatim>\<open>all\<close> of
  its instances, and every relationship query scans \<^verbatim>\<open>Contract.all\<close> comparing
  object identities. Identity and mutation matter, so objects live in a store and are
  named by their address. An object is its class and its instance dictionary.
\<close>

type_synonym addr = nat

text \<open>
  The classes of the module, and a class derived from one of them that overrides nothing
  (\<^verbatim>\<open>class Novelist(Author): pass\<close>).
\<close>

datatype pyclass = Author | Book | Contract | Derived string pyclass

datatype pyval = VNone | VBool bool | VInt int | VStr string | VRef addr

text \<open>
  The module raises plain \<^verbatim>\<open>Exception(msg)\<close> from its setters; this is the error the
  specification calls ValidationError. Reading an instance attribute that was never
  assigned raises \<^verbatim>\<open>AttributeError\<close>, and adding a non-number to an integer raises
  \<^verbatim>\<open>TypeError\<close>.
\<close>

datatype pyerror = Exception string | AttributeError string | TypeError string

record pyobj =
  obj_class :: pyclass
  obj_dict :: "(string \<times> pyval) list"

record state =
  heap :: "pyobj list"
  Author_all :: "addr list"
  Book_all :: "addr list"
  Contract_all :: "addr list"

text \<open>At import time the three registries are empty lists and no instance exists.\<close>

definition init_state :: state where
  "init_state = \<lparr>heap = [], Author_all = [], Book_all = [], Contract_all = []\<rparr>"

definition lookup :: "state \<Rightarrow> addr \<Rightarrow> pyobj option" where
  "lookup s a = (if a < length (heap s) then Some (heap s ! a) else None)"

text \<open>\<^verbatim>\<open>object.__new__(cls)\<close>: a fresh object with an empty instance dictionary.\<close>

definition new_object :: "pyclass \<Rightarrow> state \<Rightarrow> addr \<times> state" where
  "new_object c s =
     (length (heap s), s\<lparr>heap := heap s @ [\<lparr>obj_class = c, obj_dict = []\<rparr>]\<rparr>)"

definition getattr :: "addr \<Rightarrow> string \<Rightarrow> state \<Rightarrow> pyerror + pyval" where
  "getattr self n s =
     (case lookup s self of
        None \<Rightarrow> Inl (AttributeError n)
      | Some ob \<Rightarrow>
          (case map_of (obj_dict ob) n of
             None \<Rightarrow> Inl (AttributeError n)
           | Some v \<Rightarrow> Inr v))"

definition setattr :: "addr \<Rightarrow> string \<Rightarrow> pyval \<Rightarrow> state \<Rightarrow> state" where
  "setattr self n v s =
     (case lookup s self of
        None \<Rightarrow> s
      | Some ob \<Rightarrow>
          s\<lparr>heap := (heap s)[self := ob\<lparr>obj_dict := AList.update n v (obj_dict ob)\<rparr>]\<rparr>)"

subsection \<open>The built-ins the module uses\<close>

fun issubclass :: "pyclass \<Rightarrow> pyclass \<Rightarrow> bool" where
  "issubclass (Derived n p) d = (Derived n p = d \<or> issubclass p d)"
| "issubclass c d = (c = d)"

datatype pytype = TStr | TInt | TClass pyclass

text \<open>
  \<^verbatim>\<open>isinstance(value, T)\<close> for the three kinds of \<^verbatim>\<open>T\<close> the module tests.
  \<^verbatim>\<open>bool\<close> is a subclass of \<^verbatim>\<open>int\<close> in Python, so a boolean is an instance of
  \<^verbatim>\<open>int\<close>.
\<close>

fun isinstance :: "state \<Rightarrow> pyval \<Rightarrow> pytype \<Rightarrow> bool" where
  "isinstance s (VStr x) TStr = True"
| "isinstance s (VInt i) TInt = True"
| "isinstance s (VBool b) TInt = True"
| "isinstance s (VRef a) (TClass c) =
     (case lookup s a of None \<Rightarrow> False | Some ob \<Rightarrow> issubclass (obj_class ob) c)"
| "isinstance s v t = False"

text \<open>The integer a value counts as in arithmetic and comparisons, if it is a number.\<close>

fun as_int :: "pyval \<Rightarrow> int option" where
  "as_int (VInt i) = Some i"
| "as_int (VBool b) = Some (if b then 1 else 0)"
| "as_int v = None"

text \<open>
  \<^verbatim>\<open>v == w\<close>: numbers compare by value (\<^verbatim>\<open>True == 1\<close>), strings by content, and
  instances of the three classes, which define no \<^verbatim>\<open>__eq__\<close>, by identity.
\<close>

definition py_eq :: "pyval \<Rightarrow> pyval \<Rightarrow> bool" where
  "py_eq v w =
     (case (as_int v, as_int w) of
        (Some i, Some j) \<Rightarrow> i = j
      | _ \<Rightarrow> v = w)"

text \<open>\<^verbatim>\<open>v is VRef a\<close>: identity with an instance.\<close>

definition py_is :: "pyval \<Rightarrow> pyval \<Rightarrow> bool" where
  "py_is v w = (v = w)"

subsection \<open>Statements that may raise\<close>

type_synonym 'a py = "state \<Rightarrow> (pyerror + 'a) \<times> state"

definition raise :: "pyerror \<Rightarrow> 'a py" where
  "raise e s = (Inl e, s)"

definition py_bind :: "'a py \<Rightarrow> ('a \<Rightarrow> 'b py) \<Rightarrow> 'b py" where
  "py_bind m f s =
     (case m s of
        (Inl e, s') \<Rightarrow> (Inl e, s')
      | (Inr x, s') \<Rightarrow> f x s')"

text \<open>
  The call \<^verbatim>\<open>C(args)\<close>: allocate the instance, run \<^verbatim>\<open>__init__\<close> on it, and
  return it unless \<^verbatim>\<open>__init__\<close> raised.
\<close>

definition construct :: "pyclass \<Rightarrow> (addr \<Rightarrow> unit py) \<Rightarrow> addr py" where
  "construct c init s =
     (case new_object c s of
        (self, s0) \<Rightarrow>
          (case init self s0 of
             (Inl e, s1) \<Rightarrow> (Inl e, s1)
           | (Inr u, s1) \<Rightarrow> (Inr self, s1)))"

text \<open>
  A list comprehension \<^verbatim>\<open>[c for c in xs if p(c)]\<close> over a list of instances, where
  evaluating the condition may raise.
\<close>

fun comprehension :: "(addr \<Rightarrow> pyerror + bool) \<Rightarrow> addr list \<Rightarrow> pyerror + addr list" where
  "comprehension p [] = Inr []"
| "comprehension p (c # cs) =
     (case p c of
        Inl e \<Rightarrow> Inl e
      | Inr b \<Rightarrow>
          (case comprehension p cs of
             Inl e \<Rightarrow> Inl e
           | Inr r \<Rightarrow> Inr (if b then c # r else r)))"

text \<open>
  A set comprehension \<^verbatim>\<open>{f(c) for c in xs}\<close> followed by \<^verbatim>\<open>list(...)\<close>. A Python
  set keeps one element of each \<^verbatim>\<open>==\<close>-class. The order in which \<^verbatim>\<open>list\<close>
  enumerates it depends on hash values and is not fixed by the language; the model
  lists the elements in order of first insertion, and no theorem below depends on
  that order.
\<close>

definition set_add :: "pyval list \<Rightarrow> pyval \<Rightarrow> pyval list" where
  "set_add xs v = (if list_ex (py_eq v) xs then xs else xs @ [v])"

fun set_comprehension ::
  "(addr \<Rightarrow> pyerror + pyval) \<Rightarrow> pyval list \<Rightarrow> addr list \<Rightarrow> pyerror + pyval list" where
  "set_comprehension f acc [] = Inr acc"
| "set_comprehension f acc (c # cs) =
     (case f c of
        Inl e \<Rightarrow> Inl e
      | Inr v \<Rightarrow> set_comprehension f (set_add acc v) cs)"

section \<open>Author\<close>

definition Author_name_get :: "addr \<Rightarrow> state \<Rightarrow> pyerror + pyval" where
  "Author_name_get self s = getattr self ''_name'' s"

definition Author_name_set :: "addr \<Rightarrow> pyval \<Rightarrow> unit py" where
  "Author_name_set self val s =
     (if \<not> isinstance s val TStr then raise (Exception ''Author.name must be a string'') s
      else (Inr (), setattr self ''_name'' val s))"

definition Author_init :: "addr \<Rightarrow> pyval \<Rightarrow> unit py" where
  "Author_init self name =
     py_bind (Author_name_set self name) (\<lambda>u s.
       (Inr (), s\<lparr>Author_all := Author_all s @ [self]\<rparr>))"

definition Author_new :: "pyval \<Rightarrow> addr py" where
  "Author_new name = construct Author (\<lambda>self. Author_init self name)"

section \<open>Book\<close>

definition Book_title_get :: "addr \<Rightarrow> state \<Rightarrow> pyerror + pyval" where
  "Book_title_get self s = getattr self ''_title'' s"

definition Book_title_set :: "addr \<Rightarrow> pyval \<Rightarrow> unit py" where
  "Book_title_set self val s =
     (if \<not> isinstance s val TStr then raise (Exception ''Book.title must be a string'') s
      else (Inr (), setattr self ''_title'' val s))"

definition Book_init :: "addr \<Rightarrow> pyval \<Rightarrow> unit py" where
  "Book_init self title =
     py_bind (Book_title_set self title) (\<lambda>u s.
       (Inr (), s\<lparr>Book_all := Book_all s @ [self]\<rparr>))"

definition Book_new :: "pyval \<Rightarrow> addr py" where
  "Book_new title = construct Book (\<lambda>self. Book_init self title)"

section \<open>Contract\<close>

definition Contract_author_get :: "addr \<Rightarrow> state \<Rightarrow> pyerror + pyval" where
  "Contract_author_get self s = getattr self ''_author'' s"

definition Contract_author_set :: "addr \<Rightarrow> pyval \<Rightarrow> unit py" where
  "Contract_author_set self val s =
     (if \<not> isinstance s val (TClass Author)
      then raise (Exception ''Contract.author must be an Author'') s
      else (Inr (), setattr self ''_author'' val s))"

definition Contract_book_get :: "addr \<Rightarrow> state \<Rightarrow> pyerror + pyval" where
  "Contract_book_get self s = getattr self ''_book'' s"

definition Contract_book_set :: "addr \<Rightarrow> pyval \<Rightarrow> unit py" where
  "Contract_book_set self val s =
     (if \<not> isinstance s val (TClass Book)
      then raise (Exception ''Contract.book must be a Book'') s
      else (Inr (), setattr self ''_book'' val s))"

definition Contract_date_get :: "addr \<Rightarrow> state \<Rightarrow> pyerror + pyval" where
  "Contract_date_get self s = getattr self ''_date'' s"

definition Contract_date_set :: "addr \<Rightarrow> pyval \<Rightarrow> unit py" where
  "Contract_date_set self val s =
     (if \<not> isinstance s val TStr then raise (Exception ''Contract.date must be a str'') s
      else (Inr (), setattr self ''_date'' val s))"

definition Contract_royalties_get :: "addr \<Rightarrow> state \<Rightarrow> pyerror + pyval" where
  "Contract_royalties_get self s = getattr self ''_royalties'' s"

definition Contract_royalties_set :: "addr \<Rightarrow> pyval \<Rightarrow> unit py" where
  "Contract_royalties_set self val s =
     (if \<not> isinstance s val TInt
      then raise (Exception ''Contract.royalties must be an int'') s
      else (Inr (), setattr self ''_royalties'' val s))"

definition Contract_init :: "addr \<Rightarrow> pyval \<Rightarrow> pyval \<Rightarrow> pyval \<Rightarrow> pyval \<Rightarrow> unit py" where
  "Contract_init self author book date royalties =
     py_bind (Contract_author_set self author) (\<lambda>u.
     py_bind (Contract_book_set self book) (\<lambda>u.
     py_bind (Contract_date_set self date) (\<lambda>u.
     py_bind (Contract_royalties_set self royalties) (\<lambda>u s.
       (Inr (), s\<lparr>Contract_all := Contract_all s @ [self]\<rparr>)))))"

definition Contract_new :: "pyval \<Rightarrow> pyval \<Rightarrow> pyval \<Rightarrow> pyval \<Rightarrow> addr py" where
  "Contract_new author book date royalties =
     construct Contract (\<lambda>self. Contract_init self author book date royalties)"

definition Contract_contracts_by_date :: "pyval \<Rightarrow> state \<Rightarrow> pyerror + addr list" where
  "Contract_contracts_by_date date s =
     comprehension
       (\<lambda>c. case Contract_date_get c s of
               Inl e \<Rightarrow> Inl e
             | Inr d \<Rightarrow> Inr (py_eq d date))
       (Contract_all s)"

section \<open>Relationship helpers\<close>

definition Author_contracts :: "addr \<Rightarrow> state \<Rightarrow> pyerror + addr list" where
  "Author_contracts self s =
     comprehension
       (\<lambda>c. case Contract_author_get c s of
               Inl e \<Rightarrow> Inl e
             | Inr a \<Rightarrow> Inr (py_is a (VRef self)))
       (Contract_all s)"

definition Author_books :: "addr \<Rightarrow> state \<Rightarrow> pyerror + pyval list" where
  "Author_books self s =
     (case Author_contracts self s of
        Inl e \<Rightarrow> Inl e
      | Inr cs \<Rightarrow> set_comprehension (\<lambda>c. Contract_book_get c s) [] cs)"

definition Author_sign_contract :: "addr \<Rightarrow> pyval \<Rightarrow> pyval \<Rightarrow> pyval \<Rightarrow> addr py" where
  "Author_sign_contract self book date royalties =
     Contract_new (VRef self) book date royalties"

text \<open>
  \<^verbatim>\<open>sum(c.royalties for c in self.contracts())\<close>: the list of contracts is computed
  first; then each contract's royalties are read and added to the running total, which
  starts at the integer 0.
\<close>

fun sum_royalties :: "state \<Rightarrow> int \<Rightarrow> addr list \<Rightarrow> pyerror + pyval" where
  "sum_royalties s acc [] = Inr (VInt acc)"
| "sum_royalties s acc (c # cs) =
     (case Contract_royalties_get c s of
        Inl e \<Rightarrow> Inl e
      | Inr r \<Rightarrow>
          (case as_int r of
             None \<Rightarrow> Inl (TypeError ''unsupported operand type(s) for +'')
           | Some i \<Rightarrow> sum_royalties s (acc + i) cs))"

definition Author_total_royalties :: "addr \<Rightarrow> state \<Rightarrow> pyerror + pyval" where
  "Author_total_royalties self s =
     (case Author_contracts self s of
        Inl e \<Rightarrow> Inl e
      | Inr cs \<Rightarrow> sum_royalties s 0 cs)"

definition Book_contracts :: "addr \<Rightarrow> state \<Rightarrow> pyerror + addr list" where
  "Book_contracts self s =
     comprehension
       (\<lambda>c. case Contract_book_get c s of
               Inl e \<Rightarrow> Inl e
             | Inr b \<Rightarrow> Inr (py_is b (VRef self)))
       (Contract_all s)"

definition Book_authors :: "addr \<Rightarrow> state \<Rightarrow> pyerror + pyval list" where
  "Book_authors self s =
     (case Book_contracts self s of
        Inl e \<Rightarrow> Inl e
      | Inr cs \<Rightarrow> set_comprehension (\<lambda>c. Contract_author_get c s) [] cs)"

section \<open>Well-formed states\<close>

text \<open>
  The relationship helpers read \<^verbatim>\<open>c.author\<close>, \<^verbatim>\<open>c.book\<close>,
  \<^verbatim>\<open>c.date\<close> and \<^verbatim>\<open>c.royalties\<close> of every element of \<^verbatim>\<open>Contract.all\<close>.
  These reads succeed when every registered instance has been initialised completely.
  \<open>wf\<close> states this for the three registries: a registered instance belongs to
  its class and each of its validated attributes holds a value of the validated kind.
\<close>

definition has_type :: "state \<Rightarrow> addr \<Rightarrow> string \<Rightarrow> pytype \<Rightarrow> bool" where
  "has_type s a n t = (case getattr a n s of Inl e \<Rightarrow> False | Inr v \<Rightarrow> isinstance s v t)"

definition valid_author :: "state \<Rightarrow> addr \<Rightarrow> bool" where
  "valid_author s a = (isinstance s (VRef a) (TClass Author) \<and> has_type s a ''_name'' TStr)"

definition valid_book :: "state \<Rightarrow> addr \<Rightarrow> bool" where
  "valid_book s b = (isinstance s (VRef b) (TClass Book) \<and> has_type s b ''_title'' TStr)"

definition valid_contract :: "state \<Rightarrow> addr \<Rightarrow> bool" where
  "valid_contract s c =
     (isinstance s (VRef c) (TClass Contract) \<and>
      has_type s c ''_author'' (TClass Author) \<and>
      has_type s c ''_book'' (TClass Book) \<and>
      has_type s c ''_date'' TStr \<and>
      has_type s c ''_royalties'' TInt)"

definition wf :: "state \<Rightarrow> bool" where
  "wf s =
     (list_all (valid_author s) (Author_all s) \<and>
      list_all (valid_book s) (Book_all s) \<and>
      list_all (valid_contract s) (Contract_all s))"

text \<open>
  The six property setters share one shape: test the value with \<^verbatim>\<open>isinstance\<close>,
  raise if the test fails, otherwise store the value under the private attribute name.
\<close>

definition checked_set :: "pytype \<Rightarrow> string \<Rightarrow> string \<Rightarrow> addr \<Rightarrow> pyval \<Rightarrow> unit py" where
  "checked_set t msg n self val s =
     (if \<not> isinstance s val t then (Inl (Exception msg), s)
      else (Inr (), setattr self n val s))"

text \<open>The kind of value each private attribute holds once its setter has accepted one.\<close>

definition attr_type :: "string \<Rightarrow> pytype option" where
  "attr_type n =
     (if n = ''_name'' then Some TStr
      else if n = ''_title'' then Some TStr
      else if n = ''_author'' then Some (TClass Author)
      else if n = ''_book'' then Some (TClass Book)
      else if n = ''_date'' then Some TStr
      else if n = ''_royalties'' then Some TInt
      else None)"

section \<open>Client calls\<close>

text \<open>
  What a client of the module can do that changes the state: call one of the three
  classes, or a class derived from one of them, call \<^verbatim>\<open>sign_contract\<close> on an
  author, and assign to one of the six properties. An exception raised by a call is
  caught by the client; the state the call leaves behind is kept. Assigning
  \<^verbatim>\<open>x.name = v\<close> on an object whose class has no property \<^verbatim>\<open>name\<close> stores
  an ordinary instance attribute.
\<close>

definition derive :: "string list \<Rightarrow> pyclass \<Rightarrow> pyclass" where
  "derive ns c = foldr Derived ns c"

datatype call =
    NewAuthor "string list" pyval
  | NewBook "string list" pyval
  | NewContract "string list" pyval pyval pyval pyval
  | SignContract addr pyval pyval pyval
  | SetName addr pyval
  | SetTitle addr pyval
  | SetAuthor addr pyval
  | SetBook addr pyval
  | SetDate addr pyval
  | SetRoyalties addr pyval

fun step :: "call \<Rightarrow> state \<Rightarrow> state" where
  "step (NewAuthor ns name) s =
     snd (construct (derive ns Author) (\<lambda>self. Author_init self name) s)"
| "step (NewBook ns title) s =
     snd (construct (derive ns Book) (\<lambda>self. Book_init self title) s)"
| "step (NewContract ns author book date royalties) s =
     snd (construct (derive ns Contract)
            (\<lambda>self. Contract_init self author book date royalties) s)"
| "step (SignContract a book date royalties) s =
     (if isinstance s (VRef a) (TClass Author)
      then snd (Author_sign_contract a book date royalties s) else s)"
| "step (SetName a v) s =
     (if isinstance s (VRef a) (TClass Author) then snd (Author_name_set a v s)
      else setattr a ''name'' v s)"
| "step (SetTitle a v) s =
     (if isinstance s (VRef a) (TClass Book) then snd (Book_title_set a v s)
      else setattr a ''title'' v s)"
| "step (SetAuthor a v) s =
     (if isinstance s (VRef a) (TClass Contract) then snd (Contract_author_set a v s)
      else setattr a ''author'' v s)"
| "step (SetBook a v) s =
     (if isinstance s (VRef a) (TClass Contract) then snd (Contract_book_set a v s)
      else setattr a ''book'' v s)"
| "step (SetDate a v) s =
     (if isinstance s (VRef a) (TClass Contract) then snd (Contract_date_set a v s)
      else setattr a ''date'' v s)"
| "step (SetRoyalties a v) s =
     (if isinstance s (VRef a) (TClass Contract) then snd (Contract_royalties_set a v s)
      else setattr a ''royalties'' v s)"

definition run :: "call list \<Rightarrow> state \<Rightarrow> state" where
  "run cs s = fold step cs s"

text \<open>
  The scenario of the specification: authors Jo and Li, book X, and one contract of each
  author for that book, both dated 2020-01-01.
\<close>

definition scenario :: state where
  "scenario =
     run [NewAuthor [] (VStr ''Jo''), NewAuthor [] (VStr ''Li''), NewBook [] (VStr ''X''),
          SignContract 0 (VRef 2) (VStr ''2020-01-01'') (VInt 100),
          SignContract 1 (VRef 2) (VStr ''2020-01-01'') (VInt 200)]
       init_state"

text \<open>An author and a book with no contract.\<close>

definition lonely :: state where
  "lonely = run [NewAuthor [] (VStr ''Jo''), NewBook [] (VStr ''X'')] init_state"

text \<open>
  Two failed constructions, of an author and of a book, followed by two successful ones.
\<close>

definition after_failure :: state where
  "after_failure =
     run [NewAuthor [] (VInt 3), NewBook [] VNone, NewAuthor [] (VStr ''Jo''),
          NewBook [] (VStr ''X'')] init_state"

text \<open>
  An instance of \<^verbatim>\<open>class Novelist(Author)\<close> and one of \<^verbatim>\<open>class Novel(Book)\<close>.
\<close>

definition subclassed :: state where
  "subclassed =
     run [NewAuthor [''Novelist''] (VStr ''Jo''), NewBook [''Novel''] (VStr ''X'')] init_state"

section \<open>The store\<close>

lemma lookup_new_object:
  "lookup (snd (new_object c s)) a =
     (if a = length (heap s) then Some \<lparr>obj_class = c, obj_dict = []\<rparr> else lookup s a)"
  by (simp add: lookup_def new_object_def nth_append)

lemma lookup_None_iff: "lookup s a = None \<longleftrightarrow> length (heap s) \<le> a"
  by (simp add: lookup_def)

lemma lookup_SomeD: "lookup s a = Some ob \<Longrightarrow> a < length (heap s)"
  by (simp add: lookup_def split: if_splits)

lemma getattr_new_object [simp]: "getattr a n (snd (new_object c s)) = getattr a n s"
  by (simp add: getattr_def lookup_new_object) (simp add: lookup_def)

lemma isinstance_new_object:
  "isinstance s v t \<Longrightarrow> isinstance (snd (new_object c s)) v t"
  by (cases "(s, v, t)" rule: isinstance.cases)
     (auto simp: lookup_new_object dest: lookup_SomeD split: option.splits)

lemma lookup_setattr:
  "lookup (setattr self m v s) a =
     (case lookup s a of
        None \<Rightarrow> None
      | Some ob \<Rightarrow> Some (if a = self then ob\<lparr>obj_dict := AList.update m v (obj_dict ob)\<rparr> else ob))"
  by (auto simp: lookup_def setattr_def split: option.splits)

lemma getattr_setattr:
  "getattr a n (setattr self m v s) =
     (if a = self \<and> n = m \<and> self < length (heap s) then Inr v else getattr a n s)"
  by (auto simp: getattr_def lookup_setattr update_conv' lookup_None_iff dest: lookup_SomeD split: option.splits)

lemma isinstance_setattr [simp]: "isinstance (setattr self m v s) w t = isinstance s w t"
  by (cases "(s, w, t)" rule: isinstance.cases)
     (auto simp: lookup_setattr split: option.splits)

lemma regs_setattr [simp]:
  "Author_all (setattr self m v s) = Author_all s"
  "Book_all (setattr self m v s) = Book_all s"
  "Contract_all (setattr self m v s) = Contract_all s"
  by (auto simp: setattr_def split: option.splits)

lemma regs_new_object [simp]:
  "Author_all (snd (new_object c s)) = Author_all s"
  "Book_all (snd (new_object c s)) = Book_all s"
  "Contract_all (snd (new_object c s)) = Contract_all s"
  "fst (new_object c s) = length (heap s)"
  "length (heap (snd (new_object c s))) = Suc (length (heap s))"
  by (auto simp: new_object_def)

lemma has_type_new_object: "has_type s a n t \<Longrightarrow> has_type (snd (new_object c s)) a n t"
  by (auto simp: has_type_def isinstance_new_object split: sum.splits)

lemma has_type_setattr:
  "has_type s a n t \<Longrightarrow> (a = self \<and> n = m \<longrightarrow> isinstance s v t) \<Longrightarrow>
   has_type (setattr self m v s) a n t"
  by (auto simp: has_type_def getattr_setattr split: sum.splits)


lemma setters_checked:
  "Author_name_set = checked_set TStr ''Author.name must be a string'' ''_name''"
  "Book_title_set = checked_set TStr ''Book.title must be a string'' ''_title''"
  "Contract_author_set =
     checked_set (TClass Author) ''Contract.author must be an Author'' ''_author''"
  "Contract_book_set = checked_set (TClass Book) ''Contract.book must be a Book'' ''_book''"
  "Contract_date_set = checked_set TStr ''Contract.date must be a str'' ''_date''"
  "Contract_royalties_set =
     checked_set TInt ''Contract.royalties must be an int'' ''_royalties''"
  by (simp_all add: fun_eq_iff checked_set_def raise_def Author_name_set_def
      Book_title_set_def Contract_author_set_def Contract_book_set_def
      Contract_date_set_def Contract_royalties_set_def)

lemma valid_new_object:
  "valid_author s a \<Longrightarrow> valid_author (snd (new_object c s)) a"
  "valid_book s a \<Longrightarrow> valid_book (snd (new_object c s)) a"
  "valid_contract s a \<Longrightarrow> valid_contract (snd (new_object c s)) a"
  by (simp_all add: valid_author_def valid_book_def valid_contract_def
      has_type_new_object isinstance_new_object del: isinstance.simps)

lemma wf_new_object: "wf s \<Longrightarrow> wf (snd (new_object c s))"
  by (auto simp: wf_def list_all_iff valid_new_object)

lemma has_type_setattr_ok:
  assumes "has_type s a n t" and "attr_type n = Some t"
    and "\<And>t'. attr_type m = Some t' \<Longrightarrow> isinstance s v t'"
  shows "has_type (setattr self m v s) a n t"
  using assms by (auto intro!: has_type_setattr)

lemma valid_setattr:
  assumes "\<And>t'. attr_type m = Some t' \<Longrightarrow> isinstance s v t'"
  shows "valid_author s a \<Longrightarrow> valid_author (setattr self m v s) a"
    and "valid_book s a \<Longrightarrow> valid_book (setattr self m v s) a"
    and "valid_contract s a \<Longrightarrow> valid_contract (setattr self m v s) a"
  using assms
  by (auto simp: valid_author_def valid_book_def valid_contract_def attr_type_def
      simp del: isinstance.simps intro!: has_type_setattr_ok)

lemma wf_setattr:
  assumes "wf s" and "\<And>t'. attr_type m = Some t' \<Longrightarrow> isinstance s v t'"
  shows "wf (setattr self m v s)"
  using assms by (auto simp: wf_def list_all_iff intro: valid_setattr)

lemma wf_checked_set:
  assumes "wf s" and "attr_type n = Some t"
  shows "wf (snd (checked_set t msg n self v s))"
  using assms by (auto simp: checked_set_def intro: wf_setattr)


lemma heap_only [simp]:
  "lookup (Author_all_update f s) = lookup s"
  "lookup (Book_all_update f s) = lookup s"
  "lookup (Contract_all_update f s) = lookup s"
  "getattr a n (Author_all_update f s) = getattr a n s"
  "getattr a n (Book_all_update f s) = getattr a n s"
  "getattr a n (Contract_all_update f s) = getattr a n s"
  "isinstance (Author_all_update f s) v t = isinstance s v t"
  "isinstance (Book_all_update f s) v t = isinstance s v t"
  "isinstance (Contract_all_update f s) v t = isinstance s v t"
proof -
  show l1: "lookup (Author_all_update f s) = lookup s"
    and l2: "lookup (Book_all_update f s) = lookup s"
    and l3: "lookup (Contract_all_update f s) = lookup s"
    by (simp_all add: fun_eq_iff lookup_def)
  show "getattr a n (Author_all_update f s) = getattr a n s"
    and "getattr a n (Book_all_update f s) = getattr a n s"
    and "getattr a n (Contract_all_update f s) = getattr a n s"
    by (simp_all add: getattr_def l1 l2 l3)
  show "isinstance (Author_all_update f s) v t = isinstance s v t"
    and "isinstance (Book_all_update f s) v t = isinstance s v t"
    and "isinstance (Contract_all_update f s) v t = isinstance s v t"
    by (cases "(s, v, t)" rule: isinstance.cases; simp add: l1 l2 l3)+
qed

lemma has_type_heap_only [simp]:
  "has_type (Author_all_update f s) = has_type s"
  "has_type (Book_all_update f s) = has_type s"
  "has_type (Contract_all_update f s) = has_type s"
  by (auto simp: fun_eq_iff has_type_def split: sum.splits)

lemma valid_heap_only [simp]:
  "valid_author (Author_all_update f s) = valid_author s"
  "valid_author (Book_all_update f s) = valid_author s"
  "valid_author (Contract_all_update f s) = valid_author s"
  "valid_book (Author_all_update f s) = valid_book s"
  "valid_book (Book_all_update f s) = valid_book s"
  "valid_book (Contract_all_update f s) = valid_book s"
  "valid_contract (Author_all_update f s) = valid_contract s"
  "valid_contract (Book_all_update f s) = valid_contract s"
  "valid_contract (Contract_all_update f s) = valid_contract s"
  by (simp_all add: fun_eq_iff valid_author_def valid_book_def valid_contract_def
      del: isinstance.simps)

lemma wf_append:
  "wf s \<Longrightarrow> valid_author s a \<Longrightarrow> wf (s\<lparr>Author_all := Author_all s @ [a]\<rparr>)"
  "wf s \<Longrightarrow> valid_book s a \<Longrightarrow> wf (s\<lparr>Book_all := Book_all s @ [a]\<rparr>)"
  "wf s \<Longrightarrow> valid_contract s a \<Longrightarrow> wf (s\<lparr>Contract_all := Contract_all s @ [a]\<rparr>)"
  by (simp_all add: wf_def)

lemma isinstance_prim:
  "isinstance s v TStr = (\<exists>x. v = VStr x)"
  "isinstance s v TInt = (as_int v \<noteq> None)"
  by (cases v; simp)+

lemma issubclass_refl [simp]: "issubclass c c"
  by (cases c) simp_all

lemma issubclass_derive [simp]: "issubclass (derive ns c) c"
  by (induction ns) (simp_all add: derive_def)

lemma isinstance_self_new_object:
  "issubclass c d \<Longrightarrow>
   isinstance (snd (new_object c s)) (VRef (length (heap s))) (TClass d)"
  by (simp add: lookup_new_object)

lemma has_type_set_self:
  "self < length (heap s) \<Longrightarrow> isinstance s v t \<Longrightarrow> has_type (setattr self n v s) self n t"
  by (simp add: has_type_def getattr_setattr)

lemma has_type_set_other:
  "has_type s a n t \<Longrightarrow> n \<noteq> m \<Longrightarrow> has_type (setattr self m v s) a n t"
  by (simp add: has_type_def getattr_setattr split: sum.splits)

lemma length_heap_setattr [simp]: "length (heap (setattr self m v s)) = length (heap s)"
  by (simp add: setattr_def split: option.splits)

lemma construct_eq:
  "construct c init s =
     (case init (length (heap s)) (snd (new_object c s)) of
        (Inl e, s1) \<Rightarrow> (Inl e, s1)
      | (Inr u, s1) \<Rightarrow> (Inr (length (heap s)), s1))"
  by (simp add: construct_def new_object_def)

lemma snd_construct:
  "snd (construct c init s) = snd (init (length (heap s)) (snd (new_object c s)))"
  by (simp add: construct_eq split: prod.splits sum.splits)

lemma fst_construct:
  "fst (construct c init s) =
     (case fst (init (length (heap s)) (snd (new_object c s))) of
        Inl e \<Rightarrow> Inl e
      | Inr u \<Rightarrow> Inr (length (heap s)))"
  by (simp add: construct_eq split: prod.splits sum.splits)

lemma Author_init_eq:
  "Author_init self v s =
     (if \<not> isinstance s v TStr then (Inl (Exception ''Author.name must be a string''), s)
      else (Inr (), (setattr self ''_name'' v s)\<lparr>Author_all := Author_all s @ [self]\<rparr>))"
  by (simp add: Author_init_def py_bind_def Author_name_set_def raise_def)

lemma Book_init_eq:
  "Book_init self v s =
     (if \<not> isinstance s v TStr then (Inl (Exception ''Book.title must be a string''), s)
      else (Inr (), (setattr self ''_title'' v s)\<lparr>Book_all := Book_all s @ [self]\<rparr>))"
  by (simp add: Book_init_def py_bind_def Book_title_set_def raise_def)

lemma Contract_init_eq:
  "Contract_init self a b d r s =
     (if \<not> isinstance s a (TClass Author)
      then (Inl (Exception ''Contract.author must be an Author''), s)
      else if \<not> isinstance s b (TClass Book)
      then (Inl (Exception ''Contract.book must be a Book''), setattr self ''_author'' a s)
      else if \<not> isinstance s d TStr
      then (Inl (Exception ''Contract.date must be a str''),
            setattr self ''_book'' b (setattr self ''_author'' a s))
      else if \<not> isinstance s r TInt
      then (Inl (Exception ''Contract.royalties must be an int''),
            setattr self ''_date'' d (setattr self ''_book'' b (setattr self ''_author'' a s)))
      else (Inr (),
            (setattr self ''_royalties'' r (setattr self ''_date'' d
               (setattr self ''_book'' b (setattr self ''_author'' a s))))
            \<lparr>Contract_all := Contract_all s @ [self]\<rparr>))"
  by (simp add: Contract_init_def py_bind_def Contract_author_set_def Contract_book_set_def
      Contract_date_set_def Contract_royalties_set_def raise_def del: isinstance.simps)

lemma wf_Author_init:
  assumes "wf s" and "self < length (heap s)" and "isinstance s (VRef self) (TClass Author)"
  shows "wf (snd (Author_init self v s))"
proof (cases "isinstance s v TStr")
  case False
  then show ?thesis using assms(1) by (simp add: Author_init_eq)
next
  case True
  let ?s1 = "setattr self ''_name'' v s"
  have "wf ?s1" using assms(1) True by (auto intro!: wf_setattr simp: attr_type_def)
  moreover have "valid_author ?s1 self"
    unfolding valid_author_def using True assms(2,3)
    by (simp add: has_type_set_self del: isinstance.simps)
  ultimately have "wf (?s1\<lparr>Author_all := Author_all ?s1 @ [self]\<rparr>)"
    by (rule wf_append)
  then show ?thesis using True by (simp add: Author_init_eq)
qed

lemma wf_Book_init:
  assumes "wf s" and "self < length (heap s)" and "isinstance s (VRef self) (TClass Book)"
  shows "wf (snd (Book_init self v s))"
proof (cases "isinstance s v TStr")
  case False
  then show ?thesis using assms(1) by (simp add: Book_init_eq)
next
  case True
  let ?s1 = "setattr self ''_title'' v s"
  have "wf ?s1" using assms(1) True by (auto intro!: wf_setattr simp: attr_type_def)
  moreover have "valid_book ?s1 self"
    unfolding valid_book_def using True assms(2,3)
    by (simp add: has_type_set_self del: isinstance.simps)
  ultimately have "wf (?s1\<lparr>Book_all := Book_all ?s1 @ [self]\<rparr>)"
    by (rule wf_append)
  then show ?thesis using True by (simp add: Book_init_eq)
qed

lemma wf_Contract_init:
  assumes "wf s" and "self < length (heap s)" and "isinstance s (VRef self) (TClass Contract)"
  shows "wf (snd (Contract_init self a b d r s))"
proof -
  let ?s1 = "setattr self ''_author'' a s"
  let ?s2 = "setattr self ''_book'' b ?s1"
  let ?s3 = "setattr self ''_date'' d ?s2"
  let ?s4 = "setattr self ''_royalties'' r ?s3"
  have w1: "wf ?s1" if "isinstance s a (TClass Author)"
    using assms(1) that by (auto intro!: wf_setattr simp: attr_type_def simp del: isinstance.simps)
  have w2: "wf ?s2" if "wf ?s1" "isinstance s b (TClass Book)"
    using that by (auto intro!: wf_setattr simp: attr_type_def simp del: isinstance.simps)
  have w3: "wf ?s3" if "wf ?s2" "isinstance s d TStr"
    using that by (auto intro!: wf_setattr simp: attr_type_def simp del: isinstance.simps)
  have w4: "wf ?s4" if "wf ?s3" "isinstance s r TInt"
    using that by (auto intro!: wf_setattr simp: attr_type_def simp del: isinstance.simps)
  have v: "valid_contract ?s4 self"
    if "isinstance s a (TClass Author)" "isinstance s b (TClass Book)"
       "isinstance s d TStr" "isinstance s r TInt"
    unfolding valid_contract_def using that assms(2,3)
    by (simp add: has_type_set_self has_type_set_other del: isinstance.simps)
  have w5: "wf (?s4\<lparr>Contract_all := Contract_all s @ [self]\<rparr>)"
    if "wf ?s4" "valid_contract ?s4 self"
    using wf_append(3) [OF that] by simp
  show ?thesis
    using assms(1) w1 w2 w3 w4 v w5
    by (auto simp: Contract_init_eq simp del: isinstance.simps)
qed

lemma wf_construct:
  assumes "wf s"
  shows "issubclass c Author \<Longrightarrow> wf (snd (construct c (\<lambda>self. Author_init self v) s))"
    and "issubclass c Book \<Longrightarrow> wf (snd (construct c (\<lambda>self. Book_init self v) s))"
    and "issubclass c Contract \<Longrightarrow>
         wf (snd (construct c (\<lambda>self. Contract_init self a b d r) s))"
  using wf_new_object [OF assms, of c]
  by (simp_all add: snd_construct wf_Author_init wf_Book_init wf_Contract_init
      isinstance_self_new_object del: isinstance.simps)

lemma wf_init_state: "wf init_state"
  by (simp add: wf_def init_state_def)

lemma wf_step: "wf s \<Longrightarrow> wf (step c s)"
proof (cases c)
  case (SignContract a b d r)
  then show "wf s \<Longrightarrow> wf (step c s)"
    by (simp add: Author_sign_contract_def Contract_new_def wf_construct del: isinstance.simps)
qed (auto simp: wf_construct setters_checked attr_type_def
      simp del: isinstance.simps intro!: wf_checked_set wf_setattr)

lemma wf_run: "wf s \<Longrightarrow> wf (run cs s)"
  unfolding run_def by (induction cs arbitrary: s) (simp_all add: wf_step)

text \<open>Every state a client can reach from the freshly imported module is well-formed.\<close>

lemma wf_reachable: "wf (run cs init_state)"
  by (intro wf_run wf_init_state)

section \<open>Queries in well-formed states\<close>

lemma comprehension_filter:
  "(\<And>c. c \<in> set cs \<Longrightarrow> p c = Inr (q c)) \<Longrightarrow> comprehension p cs = Inr (filter q cs)"
  by (induction cs) simp_all

lemma has_type_getattr:
  "has_type s a n t \<Longrightarrow> \<exists>v. getattr a n s = Inr v \<and> isinstance s v t"
  by (auto simp: has_type_def split: sum.splits)

lemma wf_contract:
  assumes "wf s" and "c \<in> set (Contract_all s)"
  shows "\<exists>a b d r. Contract_author_get c s = Inr (VRef a) \<and>
           isinstance s (VRef a) (TClass Author) \<and>
           Contract_book_get c s = Inr (VRef b) \<and> isinstance s (VRef b) (TClass Book) \<and>
           Contract_date_get c s = Inr (VStr d) \<and>
           Contract_royalties_get c s = Inr r \<and> as_int r \<noteq> None"
proof -
  from assms have v: "valid_contract s c" by (simp add: wf_def list_all_iff)
  from v obtain a where a: "getattr c ''_author'' s = Inr a" "isinstance s a (TClass Author)"
    unfolding valid_contract_def by (blast dest: has_type_getattr)
  from v obtain b where b: "getattr c ''_book'' s = Inr b" "isinstance s b (TClass Book)"
    unfolding valid_contract_def by (blast dest: has_type_getattr)
  from v obtain d where d: "getattr c ''_date'' s = Inr d" "isinstance s d TStr"
    unfolding valid_contract_def by (blast dest: has_type_getattr)
  from v obtain r where r: "getattr c ''_royalties'' s = Inr r" "isinstance s r TInt"
    unfolding valid_contract_def by (blast dest: has_type_getattr)
  from a(2) obtain a' where "a = VRef a'" by (cases a) simp_all
  moreover from b(2) obtain b' where "b = VRef b'" by (cases b) simp_all
  moreover from d(2) obtain d' where "d = VStr d'" by (cases d) simp_all
  moreover from r(2) have "as_int r \<noteq> None" by (simp add: isinstance_prim)
  ultimately show ?thesis
    using a b d r
    by (simp add: Contract_author_get_def Contract_book_get_def Contract_date_get_def
        Contract_royalties_get_def del: isinstance.simps)
qed

lemma Author_contracts_filter:
  assumes "wf s"
  shows "Author_contracts a s =
    Inr (filter (\<lambda>c. Contract_author_get c s = Inr (VRef a)) (Contract_all s))"
  unfolding Author_contracts_def
proof (rule comprehension_filter)
  fix c assume "c \<in> set (Contract_all s)"
  with assms obtain x where "Contract_author_get c s = Inr (VRef x)"
    using wf_contract by blast
  then show "(case Contract_author_get c s of Inl e \<Rightarrow> Inl e
              | Inr v \<Rightarrow> Inr (py_is v (VRef a))) = Inr (Contract_author_get c s = Inr (VRef a))"
    by (simp add: py_is_def)
qed

lemma Book_contracts_filter:
  assumes "wf s"
  shows "Book_contracts b s =
    Inr (filter (\<lambda>c. Contract_book_get c s = Inr (VRef b)) (Contract_all s))"
  unfolding Book_contracts_def
proof (rule comprehension_filter)
  fix c assume "c \<in> set (Contract_all s)"
  with assms obtain x where "Contract_book_get c s = Inr (VRef x)"
    using wf_contract by blast
  then show "(case Contract_book_get c s of Inl e \<Rightarrow> Inl e
              | Inr v \<Rightarrow> Inr (py_is v (VRef b))) = Inr (Contract_book_get c s = Inr (VRef b))"
    by (simp add: py_is_def)
qed

lemma py_eq_VStr: "py_eq v (VStr d) \<longleftrightarrow> v = VStr d"
  by (simp add: py_eq_def split: option.splits)

lemma py_eq_VRef: "py_eq (VRef a) w \<longleftrightarrow> w = VRef a"
  by (auto simp: py_eq_def)

lemma contracts_by_date_filter:
  assumes "wf s"
  shows "Contract_contracts_by_date (VStr d) s =
    Inr (filter (\<lambda>c. Contract_date_get c s = Inr (VStr d)) (Contract_all s))"
  unfolding Contract_contracts_by_date_def
proof (rule comprehension_filter)
  fix c assume "c \<in> set (Contract_all s)"
  with assms obtain x where "Contract_date_get c s = Inr (VStr x)"
    using wf_contract by blast
  then show "(case Contract_date_get c s of Inl e \<Rightarrow> Inl e
              | Inr v \<Rightarrow> Inr (py_eq v (VStr d))) = Inr (Contract_date_get c s = Inr (VStr d))"
    by (simp add: py_eq_VStr)
qed

lemma set_add_ref:
  "set (set_add acc (VRef a)) = insert (VRef a) (set acc)"
  "distinct acc \<Longrightarrow> distinct (set_add acc (VRef a))"
  by (auto simp: set_add_def list_ex_iff py_eq_VRef)

lemma set_comprehension_refs:
  assumes "\<And>c. c \<in> set cs \<Longrightarrow> \<exists>a. f c = Inr (VRef a)"
  shows "\<exists>r. set_comprehension f acc cs = Inr r \<and>
             set r = set acc \<union> {v. \<exists>c \<in> set cs. f c = Inr v} \<and>
             (distinct acc \<longrightarrow> distinct r)"
  using assms
proof (induction cs arbitrary: acc)
  case Nil
  then show ?case by simp
next
  case (Cons c cs)
  from Cons.prems obtain a where a: "f c = Inr (VRef a)" by auto
  from Cons.prems have "\<And>x. x \<in> set cs \<Longrightarrow> \<exists>a. f x = Inr (VRef a)" by simp
  from Cons.IH [OF this, of "set_add acc (VRef a)"]
  obtain r where r: "set_comprehension f (set_add acc (VRef a)) cs = Inr r"
    "set r = set (set_add acc (VRef a)) \<union> {v. \<exists>c \<in> set cs. f c = Inr v}"
    "distinct (set_add acc (VRef a)) \<longrightarrow> distinct r"
    by blast
  have "set r = set acc \<union> {v. \<exists>x \<in> set (c # cs). f x = Inr v}"
    using r(2) a by (auto simp: set_add_ref)
  then show ?case using r(1,3) a by (simp add: set_add_ref)
qed

lemma sum_royalties_list_all2:
  "list_all2 (\<lambda>c i. \<exists>r. Contract_royalties_get c s = Inr r \<and> as_int r = Some i) cs rs \<Longrightarrow>
   sum_royalties s acc cs = Inr (VInt (acc + sum_list rs))"
proof (induction cs rs arbitrary: acc rule: list_all2_induct)
  case Nil
  then show ?case by simp
next
  case (Cons c cs i rs)
  then show ?case by (auto simp: add.assoc)
qed

lemma list_all2_exists:
  "(\<And>c. c \<in> set cs \<Longrightarrow> \<exists>i. P c i) \<Longrightarrow> \<exists>rs. list_all2 P cs rs"
proof (induction cs)
  case Nil
  then show ?case by simp
next
  case (Cons c cs)
  from Cons.prems obtain i where "P c i" by auto
  moreover from Cons obtain rs where "list_all2 P cs rs" by auto
  ultimately have "list_all2 P (c # cs) (i # rs)" by simp
  then show ?case by blast
qed

lemma isinstance_new_object_iff:
  "isinstance (snd (new_object c s)) v t =
     (isinstance s v t \<or> (\<exists>d. t = TClass d \<and> v = VRef (length (heap s)) \<and> issubclass c d))"
  by (cases "(s, v, t)" rule: isinstance.cases)
     (auto simp: lookup_new_object lookup_None_iff dest: lookup_SomeD split: option.splits)

lemma isinstance_new_Contract [simp]:
  "isinstance (snd (new_object Contract s)) v (TClass Author) = isinstance s v (TClass Author)"
  "isinstance (snd (new_object Contract s)) v (TClass Book) = isinstance s v (TClass Book)"
  "isinstance (snd (new_object c s)) v TStr = isinstance s v TStr"
  "isinstance (snd (new_object c s)) v TInt = isinstance s v TInt"
  by (simp_all add: isinstance_new_object_iff del: isinstance.simps)

lemma Contract_new_eq:
  "Contract_new a b d r s =
     (let c = length (heap s); s0 = snd (new_object Contract s) in
      if \<not> isinstance s a (TClass Author)
      then (Inl (Exception ''Contract.author must be an Author''), s0)
      else if \<not> isinstance s b (TClass Book)
      then (Inl (Exception ''Contract.book must be a Book''), setattr c ''_author'' a s0)
      else if \<not> isinstance s d TStr
      then (Inl (Exception ''Contract.date must be a str''),
            setattr c ''_book'' b (setattr c ''_author'' a s0))
      else if \<not> isinstance s r TInt
      then (Inl (Exception ''Contract.royalties must be an int''),
            setattr c ''_date'' d (setattr c ''_book'' b (setattr c ''_author'' a s0)))
      else (Inr c,
            (setattr c ''_royalties'' r (setattr c ''_date'' d
               (setattr c ''_book'' b (setattr c ''_author'' a s0))))
            \<lparr>Contract_all := Contract_all s @ [c]\<rparr>))"
  by (simp add: Contract_new_def construct_eq Contract_init_eq Let_def del: isinstance.simps)

lemma Contract_new_ok:
  assumes "isinstance s a (TClass Author)" "isinstance s b (TClass Book)"
    "isinstance s d TStr" "isinstance s r TInt"
  shows "fst (Contract_new a b d r s) = Inr (length (heap s))"
    and "Contract_all (snd (Contract_new a b d r s)) = Contract_all s @ [length (heap s)]"
    and "Author_all (snd (Contract_new a b d r s)) = Author_all s"
    and "Book_all (snd (Contract_new a b d r s)) = Book_all s"
    and "Contract_author_get (length (heap s)) (snd (Contract_new a b d r s)) = Inr a"
    and "Contract_book_get (length (heap s)) (snd (Contract_new a b d r s)) = Inr b"
    and "Contract_date_get (length (heap s)) (snd (Contract_new a b d r s)) = Inr d"
    and "Contract_royalties_get (length (heap s)) (snd (Contract_new a b d r s)) = Inr r"
    and "isinstance (snd (Contract_new a b d r s)) (VRef (length (heap s))) (TClass Contract)"
  using assms
  by (simp_all add: Contract_new_eq Let_def Contract_author_get_def Contract_book_get_def
      Contract_date_get_def Contract_royalties_get_def getattr_setattr
      isinstance_self_new_object del: isinstance.simps)

lemma Contract_new_fail:
  assumes "\<not> (isinstance s a (TClass Author) \<and> isinstance s b (TClass Book) \<and>
              isinstance s d TStr \<and> isinstance s r TInt)"
  shows "\<exists>msg. fst (Contract_new a b d r s) = Inl (Exception msg)"
    and "Contract_all (snd (Contract_new a b d r s)) = Contract_all s"
    and "Author_all (snd (Contract_new a b d r s)) = Author_all s"
    and "Book_all (snd (Contract_new a b d r s)) = Book_all s"
  using assms by (auto simp: Contract_new_eq Let_def simp del: isinstance.simps)

lemma wf_Contract_new: "wf s \<Longrightarrow> wf (snd (Contract_new a b d r s))"
  by (simp add: Contract_new_def wf_construct)

lemma Author_new_eq:
  "Author_new v s =
     (let a = length (heap s); s0 = snd (new_object Author s) in
      if \<not> isinstance s v TStr then (Inl (Exception ''Author.name must be a string''), s0)
      else (Inr a, (setattr a ''_name'' v s0)\<lparr>Author_all := Author_all s @ [a]\<rparr>))"
  by (simp add: Author_new_def construct_eq Author_init_eq Let_def del: isinstance.simps)

lemma Book_new_eq:
  "Book_new v s =
     (let b = length (heap s); s0 = snd (new_object Book s) in
      if \<not> isinstance s v TStr then (Inl (Exception ''Book.title must be a string''), s0)
      else (Inr b, (setattr b ''_title'' v s0)\<lparr>Book_all := Book_all s @ [b]\<rparr>))"
  by (simp add: Book_new_def construct_eq Book_init_eq Let_def del: isinstance.simps)

lemma wf_author:
  assumes "wf s" and "a \<in> set (Author_all s)"
  shows "\<exists>x. Author_name_get a s = Inr (VStr x)"
proof -
  from assms have "has_type s a ''_name'' TStr"
    by (simp add: wf_def list_all_iff valid_author_def del: isinstance.simps)
  then show ?thesis
    by (auto simp: Author_name_get_def isinstance_prim dest!: has_type_getattr)
qed

lemma wf_book:
  assumes "wf s" and "b \<in> set (Book_all s)"
  shows "\<exists>x. Book_title_get b s = Inr (VStr x)"
proof -
  from assms have "has_type s b ''_title'' TStr"
    by (simp add: wf_def list_all_iff valid_book_def del: isinstance.simps)
  then show ?thesis
    by (auto simp: Book_title_get_def isinstance_prim dest!: has_type_getattr)
qed

section \<open>Properties of the specification\<close>

text \<open>
  C2. In a well-formed state, for every string \<open>d\<close>,
  \<^verbatim>\<open>Contract.contracts_by_date(d)\<close> returns exactly the registered contracts whose
  date is the string \<open>d\<close>, in the order of \<^verbatim>\<open>Contract.all\<close>, and the empty list
  when no registered contract has that date.
\<close>

theorem contracts_by_date_exact:
  assumes "wf s"
  shows "Contract_contracts_by_date (VStr d) s =
           Inr (filter (\<lambda>c. Contract_date_get c s = Inr (VStr d)) (Contract_all s)) \<and>
         ((\<forall>c \<in> set (Contract_all s). Contract_date_get c s \<noteq> Inr (VStr d)) \<longrightarrow>
            Contract_contracts_by_date (VStr d) s = Inr [])"
  using assms by (simp add: contracts_by_date_filter filter_empty_conv)

theorem contracts_by_date_exact_witness:
  "wf scenario \<and>
   Contract_contracts_by_date (VStr ''2020-01-01'') scenario = Inr [3, 4] \<and>
   list_all (\<lambda>c. Contract_date_get c scenario \<noteq> Inr (VStr ''1999-12-31''))
     (Contract_all scenario) \<and>
   Contract_contracts_by_date (VStr ''1999-12-31'') scenario = Inr []"
proof -
  have w: "wf scenario" by code_simp
  have f: "filter (\<lambda>c. Contract_date_get c scenario = Inr (VStr ''2020-01-01''))
             (Contract_all scenario) = [3, 4]"
    by code_simp
  have n: "list_all (\<lambda>c. Contract_date_get c scenario \<noteq> Inr (VStr ''1999-12-31''))
             (Contract_all scenario)"
    by code_simp
  show ?thesis
    using w n f contracts_by_date_exact [OF w, of "''2020-01-01''"]
      contracts_by_date_exact [OF w, of "''1999-12-31''"]
    by (simp add: list_all_iff)
qed

text \<open>
  C3. In a well-formed state, \<^verbatim>\<open>a.contracts()\<close> is the list of the registered
  contracts whose author is the instance \<open>a\<close> itself, in the order of
  \<^verbatim>\<open>Contract.all\<close>, and \<^verbatim>\<open>b.contracts()\<close> is the list of the registered
  contracts whose book is the instance \<open>b\<close> itself, in the same order.
\<close>

theorem contracts_scan_registry:
  assumes "wf s"
  shows "Author_contracts a s =
           Inr (filter (\<lambda>c. Contract_author_get c s = Inr (VRef a)) (Contract_all s)) \<and>
         Book_contracts b s =
           Inr (filter (\<lambda>c. Contract_book_get c s = Inr (VRef b)) (Contract_all s))"
  using assms by (simp add: Author_contracts_filter Book_contracts_filter)

theorem contracts_scan_registry_witness:
  "wf scenario \<and> Contract_all scenario = [3, 4] \<and>
   Author_contracts 1 scenario = Inr [4] \<and> Book_contracts 2 scenario = Inr [3, 4]"
proof -
  have w: "wf scenario" by code_simp
  have r: "Contract_all scenario = [3, 4]" by code_simp
  have f: "filter (\<lambda>c. Contract_author_get c scenario = Inr (VRef 1)) [3, 4] = [4]"
    by code_simp
  have g: "filter (\<lambda>c. Contract_book_get c scenario = Inr (VRef 2)) [3, 4] = [3, 4]"
    by code_simp
  show ?thesis
    using w r contracts_scan_registry [OF w, of 1 2] by (simp only: f g simp_thms)
qed

text \<open>
  C4. In a well-formed state, \<^verbatim>\<open>a.books()\<close> has no duplicates and its elements are
  exactly the books of the contracts in \<^verbatim>\<open>a.contracts()\<close>, each of them a
  \<^verbatim>\<open>Book\<close> instance; likewise \<^verbatim>\<open>b.authors()\<close> has no duplicates and its
  elements are exactly the authors of the contracts in \<^verbatim>\<open>b.contracts()\<close>.
\<close>

theorem books_authors_distinct:
  assumes "wf s"
  shows "(\<exists>cs bs. Author_contracts a s = Inr cs \<and> Author_books a s = Inr bs \<and>
            distinct bs \<and> set bs = {v. \<exists>c \<in> set cs. Contract_book_get c s = Inr v} \<and>
            (\<forall>v \<in> set bs. isinstance s v (TClass Book))) \<and>
         (\<exists>cs as. Book_contracts b s = Inr cs \<and> Book_authors b s = Inr as \<and>
            distinct as \<and> set as = {v. \<exists>c \<in> set cs. Contract_author_get c s = Inr v} \<and>
            (\<forall>v \<in> set as. isinstance s v (TClass Author)))"
proof
  let ?cs = "filter (\<lambda>c. Contract_author_get c s = Inr (VRef a)) (Contract_all s)"
  have cs: "Author_contracts a s = Inr ?cs" using assms by (rule Author_contracts_filter)
  have ref: "\<exists>x. Contract_book_get c s = Inr (VRef x)" if "c \<in> set ?cs" for c
    using wf_contract [OF assms, of c] that by auto
  from set_comprehension_refs [of ?cs "\<lambda>c. Contract_book_get c s" "[]", OF ref]
  obtain bs where bs: "set_comprehension (\<lambda>c. Contract_book_get c s) [] ?cs = Inr bs"
    "set bs = {v. \<exists>c \<in> set ?cs. Contract_book_get c s = Inr v}" "distinct bs"
    by auto
  have "isinstance s v (TClass Book)" if "v \<in> set bs" for v
  proof -
    from that bs(2) obtain c where c: "c \<in> set (Contract_all s)" "Contract_book_get c s = Inr v"
      by auto
    with wf_contract [OF assms c(1)] show ?thesis by auto
  qed
  with cs bs show "\<exists>cs bs. Author_contracts a s = Inr cs \<and> Author_books a s = Inr bs \<and>
            distinct bs \<and> set bs = {v. \<exists>c \<in> set cs. Contract_book_get c s = Inr v} \<and>
            (\<forall>v \<in> set bs. isinstance s v (TClass Book))"
    by (simp add: Author_books_def del: isinstance.simps)
next
  let ?cs = "filter (\<lambda>c. Contract_book_get c s = Inr (VRef b)) (Contract_all s)"
  have cs: "Book_contracts b s = Inr ?cs" using assms by (rule Book_contracts_filter)
  have ref: "\<exists>x. Contract_author_get c s = Inr (VRef x)" if "c \<in> set ?cs" for c
    using wf_contract [OF assms, of c] that by auto
  from set_comprehension_refs [of ?cs "\<lambda>c. Contract_author_get c s" "[]", OF ref]
  obtain as where as: "set_comprehension (\<lambda>c. Contract_author_get c s) [] ?cs = Inr as"
    "set as = {v. \<exists>c \<in> set ?cs. Contract_author_get c s = Inr v}" "distinct as"
    by auto
  have "isinstance s v (TClass Author)" if "v \<in> set as" for v
  proof -
    from that as(2) obtain c where c: "c \<in> set (Contract_all s)" "Contract_author_get c s = Inr v"
      by auto
    with wf_contract [OF assms c(1)] show ?thesis by auto
  qed
  with cs as show "\<exists>cs as. Book_contracts b s = Inr cs \<and> Book_authors b s = Inr as \<and>
            distinct as \<and> set as = {v. \<exists>c \<in> set cs. Contract_author_get c s = Inr v} \<and>
            (\<forall>v \<in> set as. isinstance s v (TClass Author))"
    by (simp add: Book_authors_def del: isinstance.simps)
qed

theorem books_authors_distinct_witness:
  "wf scenario \<and>
   (\<exists>bs. Author_books 0 scenario = Inr bs \<and> distinct bs \<and> set bs = {VRef 2}) \<and>
   (\<exists>as. Book_authors 2 scenario = Inr as \<and> distinct as \<and> set as = {VRef 0, VRef 1})"
proof -
  have w: "wf scenario" by code_simp
  have c: "Author_contracts 0 scenario = Inr [3]" "Book_contracts 2 scenario = Inr [3, 4]"
    by code_simp+
  have g: "Contract_book_get 3 scenario = Inr (VRef 2)"
    "Contract_author_get 3 scenario = Inr (VRef 0)"
    "Contract_author_get 4 scenario = Inr (VRef 1)"
    by code_simp+
  have "{v. \<exists>c \<in> set [3]. Contract_book_get c scenario = Inr v} = {VRef 2}"
    using g by auto
  moreover have "{v. \<exists>c \<in> set [3, 4]. Contract_author_get c scenario = Inr v} =
      {VRef 0, VRef 1}"
    using g by auto
  ultimately show ?thesis
    using w c books_authors_distinct [OF w, of 0 2] by auto
qed

text \<open>
  C5. In a well-formed state, \<^verbatim>\<open>a.total_royalties()\<close> is the integer sum of the
  royalties of the contracts in \<^verbatim>\<open>a.contracts()\<close>, and it is 0 when
  \<^verbatim>\<open>a.contracts()\<close> is empty.
\<close>

theorem total_royalties_sum:
  assumes "wf s"
  shows "\<exists>cs rs. Author_contracts a s = Inr cs \<and>
           list_all2 (\<lambda>c i. \<exists>r. Contract_royalties_get c s = Inr r \<and> as_int r = Some i) cs rs \<and>
           Author_total_royalties a s = Inr (VInt (sum_list rs)) \<and>
           (cs = [] \<longrightarrow> Author_total_royalties a s = Inr (VInt 0))"
proof -
  let ?cs = "filter (\<lambda>c. Contract_author_get c s = Inr (VRef a)) (Contract_all s)"
  let ?P = "\<lambda>c i. \<exists>r. Contract_royalties_get c s = Inr r \<and> as_int r = Some i"
  have cs: "Author_contracts a s = Inr ?cs" using assms by (rule Author_contracts_filter)
  have "\<exists>i. ?P c i" if "c \<in> set ?cs" for c
    using wf_contract [OF assms, of c] that by auto
  then obtain rs where rs: "list_all2 ?P ?cs rs"
    using list_all2_exists [of ?cs ?P] by blast
  from sum_royalties_list_all2 [OF rs, of 0]
  have t: "Author_total_royalties a s = Inr (VInt (sum_list rs))"
    by (simp add: Author_total_royalties_def cs)
  have "Author_total_royalties a s = Inr (VInt 0)" if "?cs = []"
    using that by (simp add: Author_total_royalties_def cs)
  with cs rs t show ?thesis by blast
qed

theorem total_royalties_sum_witness:
  "wf scenario \<and> Author_contracts 1 scenario = Inr [4] \<and>
   Author_total_royalties 1 scenario = Inr (VInt 200) \<and>
   wf lonely \<and> Author_contracts 0 lonely = Inr [] \<and>
   Author_total_royalties 0 lonely = Inr (VInt 0)"
proof -
  have w: "wf scenario" "wf lonely" by code_simp+
  have c: "Author_contracts 1 scenario = Inr [4]" "Author_contracts 0 lonely = Inr []"
    by code_simp+
  have g: "Contract_royalties_get 4 scenario = Inr (VInt 200)" by code_simp
  from total_royalties_sum [OF w(1), of 1] c(1) g
  have "Author_total_royalties 1 scenario = Inr (VInt 200)"
    by (auto simp: list_all2_Cons1)
  moreover from total_royalties_sum [OF w(2), of 0] c(2)
  have "Author_total_royalties 0 lonely = Inr (VInt 0)" by auto
  ultimately show ?thesis using w c by simp
qed

text \<open>
  C1. In a well-formed state, for an \<^verbatim>\<open>Author\<close> instance \<open>a\<close>, a \<^verbatim>\<open>Book\<close>
  instance \<open>b\<close>, a string \<open>d\<close> and an integer \<open>r\<close>,
  \<^verbatim>\<open>a.sign_contract(b, d, r)\<close> returns a new instance \<open>c\<close> of
  \<^verbatim>\<open>Contract\<close>, appended to \<^verbatim>\<open>Contract.all\<close>, whose author is \<open>a\<close>
  itself, whose book is \<open>b\<close> itself, whose date is \<open>d\<close> and whose royalties are
  \<open>r\<close>, and afterwards \<open>c\<close> is an element of \<^verbatim>\<open>a.contracts()\<close> and of
  \<^verbatim>\<open>b.contracts()\<close>.
\<close>

theorem sign_contract_links:
  assumes "wf s" and "isinstance s (VRef a) (TClass Author)"
    and "isinstance s (VRef b) (TClass Book)" and "isinstance s r TInt"
  shows "\<exists>c s'. Author_sign_contract a (VRef b) (VStr d) r s = (Inr c, s') \<and>
           lookup s c = None \<and>
           isinstance s' (VRef c) (TClass Contract) \<and>
           Contract_all s' = Contract_all s @ [c] \<and>
           Contract_author_get c s' = Inr (VRef a) \<and>
           Contract_book_get c s' = Inr (VRef b) \<and>
           Contract_date_get c s' = Inr (VStr d) \<and>
           Contract_royalties_get c s' = Inr r \<and>
           (\<exists>cs. Author_contracts a s' = Inr cs \<and> c \<in> set cs) \<and>
           (\<exists>cs. Book_contracts b s' = Inr cs \<and> c \<in> set cs)"
proof -
  let ?c = "length (heap s)"
  let ?s' = "snd (Contract_new (VRef a) (VRef b) (VStr d) r s)"
  have d: "isinstance s (VStr d) TStr" by simp
  note ok = Contract_new_ok [OF assms(2,3) d assms(4)]
  have w: "wf ?s'" using assms(1) by (rule wf_Contract_new)
  have "Author_sign_contract a (VRef b) (VStr d) r s = (Inr ?c, ?s')"
    using ok(1) by (simp add: Author_sign_contract_def prod_eq_iff)
  moreover have "?c \<in> set (filter (\<lambda>c. Contract_author_get c ?s' = Inr (VRef a))
                   (Contract_all ?s'))"
    using ok(2,5) by simp
  moreover have "?c \<in> set (filter (\<lambda>c. Contract_book_get c ?s' = Inr (VRef b))
                   (Contract_all ?s'))"
    using ok(2,6) by simp
  moreover have "lookup s ?c = None" by (simp add: lookup_def)
  ultimately show ?thesis
    using ok(2,5-9) Author_contracts_filter [OF w, of a] Book_contracts_filter [OF w, of b]
    by blast
qed

theorem sign_contract_links_witness:
  "wf scenario \<and> isinstance scenario (VRef 0) (TClass Author) \<and>
   isinstance scenario (VRef 2) (TClass Book) \<and> isinstance scenario (VInt 50) TInt \<and>
   (\<exists>s'. Author_sign_contract 0 (VRef 2) (VStr ''2021-06-30'') (VInt 50) scenario =
            (Inr 5, s') \<and>
      lookup scenario 5 = None \<and> isinstance s' (VRef 5) (TClass Contract) \<and>
      Contract_all s' = [3, 4, 5] \<and>
      Contract_author_get 5 s' = Inr (VRef 0) \<and> Contract_book_get 5 s' = Inr (VRef 2) \<and>
      Contract_date_get 5 s' = Inr (VStr ''2021-06-30'') \<and>
      Contract_royalties_get 5 s' = Inr (VInt 50) \<and>
      (\<exists>cs. Author_contracts 0 s' = Inr cs \<and> 5 \<in> set cs) \<and>
      (\<exists>cs. Book_contracts 2 s' = Inr cs \<and> 5 \<in> set cs))"
proof -
  have w: "wf scenario" by code_simp
  have a: "isinstance scenario (VRef 0) (TClass Author)" by code_simp
  have b: "isinstance scenario (VRef 2) (TClass Book)" by code_simp
  have r: "isinstance scenario (VInt 50) TInt" by simp
  have c: "fst (Author_sign_contract 0 (VRef 2) (VStr ''2021-06-30'') (VInt 50) scenario) =
      Inr 5"
    by code_simp
  have l: "Contract_all scenario = [3, 4]" by code_simp
  from sign_contract_links [OF w a b r, of "''2021-06-30''"] c l
  show ?thesis using w a b r by (auto simp del: isinstance.simps)
qed

text \<open>
  C6. \<^verbatim>\<open>Contract(author, book, date, royalties)\<close> checks the author, then the book,
  then the date, then the royalties, and raises at the first check that fails, with a
  message naming that field. When all four checks pass it returns the new instance, which
  did not exist before, and the registry \<^verbatim>\<open>Contract.all\<close> is the old one with that
  instance appended.
\<close>

theorem Contract_new_validation_order:
  "(\<not> isinstance s a (TClass Author) \<longrightarrow>
      fst (Contract_new a b d r s) = Inl (Exception ''Contract.author must be an Author'')) \<and>
   (isinstance s a (TClass Author) \<and> \<not> isinstance s b (TClass Book) \<longrightarrow>
      fst (Contract_new a b d r s) = Inl (Exception ''Contract.book must be a Book'')) \<and>
   (isinstance s a (TClass Author) \<and> isinstance s b (TClass Book) \<and>
    \<not> isinstance s d TStr \<longrightarrow>
      fst (Contract_new a b d r s) = Inl (Exception ''Contract.date must be a str'')) \<and>
   (isinstance s a (TClass Author) \<and> isinstance s b (TClass Book) \<and>
    isinstance s d TStr \<and> \<not> isinstance s r TInt \<longrightarrow>
      fst (Contract_new a b d r s) = Inl (Exception ''Contract.royalties must be an int'')) \<and>
   (isinstance s a (TClass Author) \<and> isinstance s b (TClass Book) \<and>
    isinstance s d TStr \<and> isinstance s r TInt \<longrightarrow>
      fst (Contract_new a b d r s) = Inr (length (heap s)) \<and>
      lookup s (length (heap s)) = None \<and>
      isinstance (snd (Contract_new a b d r s)) (VRef (length (heap s))) (TClass Contract) \<and>
      Contract_all (snd (Contract_new a b d r s)) = Contract_all s @ [length (heap s)])"
proof (intro conjI impI)
  assume ok: "isinstance s a (TClass Author) \<and> isinstance s b (TClass Book) \<and>
    isinstance s d TStr \<and> isinstance s r TInt"
  then show "fst (Contract_new a b d r s) = Inr (length (heap s))"
    and "Contract_all (snd (Contract_new a b d r s)) = Contract_all s @ [length (heap s)]"
    and "isinstance (snd (Contract_new a b d r s)) (VRef (length (heap s))) (TClass Contract)"
    by (simp_all add: Contract_new_ok del: isinstance.simps)
  show "lookup s (length (heap s)) = None" by (simp add: lookup_def)
qed (simp_all add: Contract_new_eq Let_def del: isinstance.simps)

theorem Contract_new_validation_order_witness:
  "\<not> isinstance scenario (VStr ''Jo'') (TClass Author) \<and>
   fst (Contract_new (VStr ''Jo'') (VStr ''not a book'') VNone VNone scenario) =
     Inl (Exception ''Contract.author must be an Author'') \<and>
   isinstance scenario (VRef 0) (TClass Author) \<and>
   \<not> isinstance scenario (VStr ''not a book'') (TClass Book) \<and>
   fst (Contract_new (VRef 0) (VStr ''not a book'') VNone VNone scenario) =
     Inl (Exception ''Contract.book must be a Book'') \<and>
   isinstance scenario (VRef 2) (TClass Book) \<and>
   \<not> isinstance scenario VNone TStr \<and>
   fst (Contract_new (VRef 0) (VRef 2) VNone VNone scenario) =
     Inl (Exception ''Contract.date must be a str'') \<and>
   isinstance scenario (VStr ''2020-01-01'') TStr \<and>
   \<not> isinstance scenario VNone TInt \<and>
   fst (Contract_new (VRef 0) (VRef 2) (VStr ''2020-01-01'') VNone scenario) =
     Inl (Exception ''Contract.royalties must be an int'') \<and>
   isinstance scenario (VInt 50) TInt \<and>
   fst (Contract_new (VRef 0) (VRef 2) (VStr ''2020-01-01'') (VInt 50) scenario) = Inr 5 \<and>
   Contract_all (snd (Contract_new (VRef 0) (VRef 2) (VStr ''2020-01-01'') (VInt 50) scenario)) =
     [3, 4, 5]"
proof -
  have a: "isinstance scenario (VRef 0) (TClass Author)" by code_simp
  have b: "isinstance scenario (VRef 2) (TClass Book)" by code_simp
  have h: "length (heap scenario) = 5" "Contract_all scenario = [3, 4]" by code_simp+
  show ?thesis
    using a b h
      Contract_new_validation_order [of scenario "VStr ''Jo''" "VStr ''not a book''" VNone VNone]
      Contract_new_validation_order [of scenario "VRef 0" "VStr ''not a book''" VNone VNone]
      Contract_new_validation_order [of scenario "VRef 0" "VRef 2" VNone VNone]
      Contract_new_validation_order [of scenario "VRef 0" "VRef 2" "VStr ''2020-01-01''" VNone]
      Contract_new_validation_order [of scenario "VRef 0" "VRef 2" "VStr ''2020-01-01''" "VInt 50"]
    by (simp del: isinstance.simps(4))
qed

text \<open>
  C7. When one of the four arguments of \<^verbatim>\<open>Contract(author, book, date, royalties)\<close>
  is invalid, the call raises and \<^verbatim>\<open>Contract.all\<close> is unchanged; in particular
  its length is unchanged.
\<close>

theorem Contract_new_failure_keeps_registry:
  assumes "\<not> (isinstance s a (TClass Author) \<and> isinstance s b (TClass Book) \<and>
              isinstance s d TStr \<and> isinstance s r TInt)"
  shows "(\<exists>msg. fst (Contract_new a b d r s) = Inl (Exception msg)) \<and>
         Contract_all (snd (Contract_new a b d r s)) = Contract_all s \<and>
         length (Contract_all (snd (Contract_new a b d r s))) = length (Contract_all s)"
  using Contract_new_fail(1,2) [OF assms] by simp

theorem Contract_new_failure_keeps_registry_witness:
  "\<not> (isinstance scenario (VRef 0) (TClass Author) \<and>
       isinstance scenario (VStr ''not a book'') (TClass Book) \<and>
       isinstance scenario (VStr ''2020-01-01'') TStr \<and> isinstance scenario (VInt 50) TInt) \<and>
   fst (Contract_new (VRef 0) (VStr ''not a book'') (VStr ''2020-01-01'') (VInt 50) scenario) =
     Inl (Exception ''Contract.book must be a Book'') \<and>
   length (Contract_all scenario) = 2 \<and>
   length (Contract_all
     (snd (Contract_new (VRef 0) (VStr ''not a book'') (VStr ''2020-01-01'') (VInt 50)
        scenario))) = 2"
proof -
  have n: "\<not> (isinstance scenario (VRef 0) (TClass Author) \<and>
       isinstance scenario (VStr ''not a book'') (TClass Book) \<and>
       isinstance scenario (VStr ''2020-01-01'') TStr \<and> isinstance scenario (VInt 50) TInt)"
    by simp
  have e: "fst (Contract_new (VRef 0) (VStr ''not a book'') (VStr ''2020-01-01'') (VInt 50)
      scenario) = Inl (Exception ''Contract.book must be a Book'')"
    by code_simp
  have l: "length (Contract_all scenario) = 2" by code_simp
  show ?thesis
    using n e l Contract_new_failure_keeps_registry [OF n] by (simp del: isinstance.simps)
qed

text \<open>
  C8. For a value \<open>v\<close> that is not a string, \<^verbatim>\<open>Author(v)\<close> raises, and the
  assignment \<^verbatim>\<open>a.name = v\<close> raises at once and leaves the state as it was; the same
  holds for \<^verbatim>\<open>Book(v)\<close> and \<^verbatim>\<open>b.title = v\<close>. For a string \<open>x\<close>,
  \<^verbatim>\<open>Author(x)\<close> returns an instance whose name is \<open>x\<close> and \<^verbatim>\<open>Book(x)\<close> one
  whose title is \<open>x\<close>.
\<close>

theorem name_title_validation:
  "((\<forall>x. v \<noteq> VStr x) \<longrightarrow>
      fst (Author_new v s) = Inl (Exception ''Author.name must be a string'') \<and>
      Author_name_set a v s = (Inl (Exception ''Author.name must be a string''), s) \<and>
      fst (Book_new v s) = Inl (Exception ''Book.title must be a string'') \<and>
      Book_title_set b v s = (Inl (Exception ''Book.title must be a string''), s)) \<and>
   (\<exists>a' s'. Author_new (VStr x) s = (Inr a', s') \<and> Author_name_get a' s' = Inr (VStr x)) \<and>
   (\<exists>b' s'. Book_new (VStr x) s = (Inr b', s') \<and> Book_title_get b' s' = Inr (VStr x))"
proof (intro conjI impI)
  assume "\<forall>x. v \<noteq> VStr x"
  then have n: "\<not> isinstance s v TStr" by (simp add: isinstance_prim)
  then show "fst (Author_new v s) = Inl (Exception ''Author.name must be a string'')"
    and "fst (Book_new v s) = Inl (Exception ''Book.title must be a string'')"
    by (simp_all add: Author_new_eq Book_new_eq Let_def)
  from n show "Author_name_set a v s = (Inl (Exception ''Author.name must be a string''), s)"
    and "Book_title_set b v s = (Inl (Exception ''Book.title must be a string''), s)"
    by (simp_all add: Author_name_set_def Book_title_set_def raise_def)
next
  show "\<exists>a' s'. Author_new (VStr x) s = (Inr a', s') \<and> Author_name_get a' s' = Inr (VStr x)"
    by (simp add: Author_new_eq Let_def Author_name_get_def getattr_setattr)
  show "\<exists>b' s'. Book_new (VStr x) s = (Inr b', s') \<and> Book_title_get b' s' = Inr (VStr x)"
    by (simp add: Book_new_eq Let_def Book_title_get_def getattr_setattr)
qed

theorem name_title_validation_witness:
  "fst (Author_new (VInt 3) scenario) = Inl (Exception ''Author.name must be a string'') \<and>
   Author_name_set 0 (VInt 3) scenario =
     (Inl (Exception ''Author.name must be a string''), scenario) \<and>
   fst (Book_new (VInt 3) scenario) = Inl (Exception ''Book.title must be a string'') \<and>
   Book_title_set 2 (VInt 3) scenario =
     (Inl (Exception ''Book.title must be a string''), scenario) \<and>
   (\<exists>a' s'. Author_new (VStr ''Jo'') scenario = (Inr a', s') \<and>
      Author_name_get a' s' = Inr (VStr ''Jo'')) \<and>
   (\<exists>b' s'. Book_new (VStr ''X'') scenario = (Inr b', s') \<and>
      Book_title_get b' s' = Inr (VStr ''X''))"
  using name_title_validation [of "VInt 3" scenario 0 2 "''Jo''"]
    name_title_validation [of "VInt 3" scenario 0 2 "''X''"]
  by simp

text \<open>
  C9. A contract whose royalties are a boolean is constructed and registered, and the
  author and book arguments may be instances of classes derived from \<^verbatim>\<open>Author\<close> and
  \<^verbatim>\<open>Book\<close>: the \<^verbatim>\<open>isinstance\<close> checks accept all of these.
\<close>

theorem Contract_new_accepts_bool_and_subclass:
  assumes "lookup s a = Some oa" and "issubclass (obj_class oa) Author"
    and "lookup s b = Some ob" and "issubclass (obj_class ob) Book"
  shows "fst (Contract_new (VRef a) (VRef b) (VStr d) (VBool r) s) = Inr (length (heap s)) \<and>
         Contract_all (snd (Contract_new (VRef a) (VRef b) (VStr d) (VBool r) s)) =
           Contract_all s @ [length (heap s)] \<and>
         Contract_royalties_get (length (heap s))
           (snd (Contract_new (VRef a) (VRef b) (VStr d) (VBool r) s)) = Inr (VBool r)"
proof -
  have "isinstance s (VRef a) (TClass Author)" "isinstance s (VRef b) (TClass Book)"
    "isinstance s (VStr d) TStr" "isinstance s (VBool r) TInt"
    using assms by simp_all
  from Contract_new_ok(1,2,8) [OF this] show ?thesis by simp
qed

theorem Contract_new_accepts_bool_and_subclass_witness:
  "lookup subclassed 0 =
     Some \<lparr>obj_class = Derived ''Novelist'' Author, obj_dict = [(''_name'', VStr ''Jo'')]\<rparr> \<and>
   lookup subclassed 1 =
     Some \<lparr>obj_class = Derived ''Novel'' Book, obj_dict = [(''_title'', VStr ''X'')]\<rparr> \<and>
   fst (Contract_new (VRef 0) (VRef 1) (VStr ''2020-01-01'') (VBool True) subclassed) = Inr 2 \<and>
   Contract_all (snd (Contract_new (VRef 0) (VRef 1) (VStr ''2020-01-01'') (VBool True)
     subclassed)) = [2] \<and>
   Contract_royalties_get 2 (snd (Contract_new (VRef 0) (VRef 1) (VStr ''2020-01-01'')
     (VBool True) subclassed)) = Inr (VBool True)"
proof -
  have a: "lookup subclassed 0 =
     Some \<lparr>obj_class = Derived ''Novelist'' Author, obj_dict = [(''_name'', VStr ''Jo'')]\<rparr>"
    by code_simp
  have b: "lookup subclassed 1 =
     Some \<lparr>obj_class = Derived ''Novel'' Book, obj_dict = [(''_title'', VStr ''X'')]\<rparr>"
    by code_simp
  have h: "length (heap subclassed) = 2" "Contract_all subclassed = []" by code_simp+
  show ?thesis
    using a b h Contract_new_accepts_bool_and_subclass [OF a _ b, of "''2020-01-01''" True]
    by simp
qed

text \<open>
  C10. A call \<^verbatim>\<open>Author(v)\<close> or \<^verbatim>\<open>Book(v)\<close> with a non-string \<open>v\<close> leaves
  \<^verbatim>\<open>Author.all\<close>, respectively \<^verbatim>\<open>Book.all\<close>, unchanged. After any sequence of
  client calls, every registered author has a string as its name and every registered
  book a string as its title, so no partially constructed instance is registered.
\<close>

theorem failed_construction_keeps_registry:
  "((\<forall>x. v \<noteq> VStr x) \<longrightarrow>
      Author_all (snd (Author_new v s)) = Author_all s \<and>
      Book_all (snd (Book_new v s)) = Book_all s) \<and>
   (\<forall>a \<in> set (Author_all (run cs init_state)).
      \<exists>x. Author_name_get a (run cs init_state) = Inr (VStr x)) \<and>
   (\<forall>b \<in> set (Book_all (run cs init_state)).
      \<exists>x. Book_title_get b (run cs init_state) = Inr (VStr x))"
proof (intro conjI impI ballI)
  assume "\<forall>x. v \<noteq> VStr x"
  then have n: "\<not> isinstance s v TStr" by (simp add: isinstance_prim)
  then show "Author_all (snd (Author_new v s)) = Author_all s"
    and "Book_all (snd (Book_new v s)) = Book_all s"
    by (simp_all add: Author_new_eq Book_new_eq Let_def)
next
  have w: "wf (run cs init_state)" by (intro wf_run wf_init_state)
  show "\<exists>x. Author_name_get a (run cs init_state) = Inr (VStr x)"
    if "a \<in> set (Author_all (run cs init_state))" for a
    using w that by (rule wf_author)
  show "\<exists>x. Book_title_get b (run cs init_state) = Inr (VStr x)"
    if "b \<in> set (Book_all (run cs init_state))" for b
    using w that by (rule wf_book)
qed

theorem failed_construction_keeps_registry_witness:
  "Author_all (snd (Author_new (VInt 3) scenario)) = [0, 1] \<and>
   Book_all (snd (Book_new VNone scenario)) = [2] \<and>
   Author_all after_failure = [2] \<and> Book_all after_failure = [3] \<and>
   (\<exists>x. Author_name_get 2 after_failure = Inr (VStr x)) \<and>
   (\<exists>x. Book_title_get 3 after_failure = Inr (VStr x))"
proof -
  have r: "Author_all scenario = [0, 1]" "Book_all scenario = [2]"
    "Author_all after_failure = [2]" "Book_all after_failure = [3]"
    by code_simp+
  show ?thesis
    using r failed_construction_keeps_registry [of "VInt 3" scenario
        "[NewAuthor [] (VInt 3), NewBook [] VNone, NewAuthor [] (VStr ''Jo''),
          NewBook [] (VStr ''X'')]"]
      failed_construction_keeps_registry [of VNone scenario "[]"]
    by (simp add: after_failure_def [symmetric])
qed

end
